theory Spec2Isabelle
  imports Complex_Main "HOL-Library.Monad_Syntax"
begin

section \<open>The mixed Neumann-Dirichlet notebook\<close>

text \<open>
  The repository is one notebook, \<^verbatim>\<open>notebooks/mixed_neumann_dirichlet.ipynb\<close>: a
  straight-line script that builds seven function spaces on the unit cube, ten boundary
  operators, a 2 x 2 blocked operator, a right-hand side, solves with GMRES and recombines
  the solution with the known data. Every binding of the script is a definition below, under
  its own name. The calls into the boundary element library and into the sparse solver are
  the operations of that interface; what they compute numerically (quadrature, mass matrix
  solves, the Krylov iteration) is a parameter, collected in the record \<open>bempp\<close>.
  A \<^verbatim>\<open>ValueError\<close> of the library is the value \<open>None\<close>.
\<close>

subsection \<open>Function spaces\<close>

datatype space_kind = DP | P

text \<open>
  The keyword arguments of \<^verbatim>\<open>bempp.api.function_space(grid, kind, order, ...)\<close>. The grid
  is the same cube in every call and is left out. \<open>domains = None\<close> is the whole grid.
\<close>

record space =
  kind :: space_kind
  order :: nat
  domains :: "nat list option"
  closed' :: bool
  strictly_on_segment :: bool
  reference_point_on_segment :: bool
  element_on_segment :: bool

text \<open>
  A call with no keyword argument. The notebook's text gives two of the defaults
  (\<^verbatim>\<open>reference_point_on_segment\<close> is \<^verbatim>\<open>True\<close>, \<^verbatim>\<open>strictly_on_segment\<close> is
  \<^verbatim>\<open>False\<close>); \<^verbatim>\<open>closed\<close> is passed in every call that passes \<^verbatim>\<open>domains\<close>.
\<close>

definition function_space :: "space_kind \<Rightarrow> nat \<Rightarrow> space" where
  "function_space k p =
     \<lparr>kind = k, order = p, domains = None, closed' = True, strictly_on_segment = False,
      reference_point_on_segment = True, element_on_segment = False\<rparr>"

definition dirichlet_segments :: "nat list" where
  "dirichlet_segments = [1, 3]"

definition neumann_segments :: "nat list" where
  "neumann_segments = [2, 4, 5, 6]"

definition order_neumann :: nat where
  "order_neumann = 1"

definition order_dirichlet :: nat where
  "order_dirichlet = 2"

definition global_neumann_space :: space where
  "global_neumann_space = function_space DP order_neumann"

definition global_dirichlet_space :: space where
  "global_dirichlet_space = function_space P order_dirichlet"

definition neumann_space_dirichlet_segment :: space where
  "neumann_space_dirichlet_segment =
     (function_space DP order_neumann)
       \<lparr>domains := Some dirichlet_segments, closed' := True, element_on_segment := True\<rparr>"

definition neumann_space_neumann_segment :: space where
  "neumann_space_neumann_segment =
     (function_space DP order_neumann)
       \<lparr>domains := Some neumann_segments, closed' := False, element_on_segment := True,
        reference_point_on_segment := False\<rparr>"

definition dirichlet_space_dirichlet_segment :: space where
  "dirichlet_space_dirichlet_segment =
     (function_space P order_dirichlet)\<lparr>domains := Some dirichlet_segments, closed' := True\<rparr>"

definition dirichlet_space_neumann_segment :: space where
  "dirichlet_space_neumann_segment =
     (function_space P order_dirichlet)\<lparr>domains := Some neumann_segments, closed' := False\<rparr>"

definition dual_dirichlet_space :: space where
  "dual_dirichlet_space =
     (function_space P order_dirichlet)
       \<lparr>domains := Some dirichlet_segments, closed' := True, strictly_on_segment := True\<rparr>"

subsection \<open>Boundary operators\<close>

datatype kernel = SingleLayer | DoubleLayer | AdjointDoubleLayer | Hypersingular | Identity

text \<open>
  An operator of the library is built from three spaces, in the order the notebook passes
  them: \<^verbatim>\<open>domain\<close>, \<^verbatim>\<open>range_\<close>, \<^verbatim>\<open>dual_to_range\<close>. A scalar multiple and a sum of
  operators are operators again.
\<close>

datatype boundary_operator =
    Elementary kernel space space space
  | Scaled real boundary_operator
  | Sum boundary_operator boundary_operator

fun domain :: "boundary_operator \<Rightarrow> space" where
  "domain (Elementary k d r t) = d"
| "domain (Scaled a A) = domain A"
| "domain (Sum A B) = domain A"

fun range' :: "boundary_operator \<Rightarrow> space" where
  "range' (Elementary k d r t) = r"
| "range' (Scaled a A) = range' A"
| "range' (Sum A B) = range' A"

fun dual_to_range :: "boundary_operator \<Rightarrow> space" where
  "dual_to_range (Elementary k d r t) = t"
| "dual_to_range (Scaled a A) = dual_to_range A"
| "dual_to_range (Sum A B) = dual_to_range A"

definition single_layer :: "space \<Rightarrow> space \<Rightarrow> space \<Rightarrow> boundary_operator" where
  "single_layer d r t = Elementary SingleLayer d r t"

definition double_layer :: "space \<Rightarrow> space \<Rightarrow> space \<Rightarrow> boundary_operator" where
  "double_layer d r t = Elementary DoubleLayer d r t"

definition adjoint_double_layer :: "space \<Rightarrow> space \<Rightarrow> space \<Rightarrow> boundary_operator" where
  "adjoint_double_layer d r t = Elementary AdjointDoubleLayer d r t"

definition hypersingular :: "space \<Rightarrow> space \<Rightarrow> space \<Rightarrow> boundary_operator" where
  "hypersingular d r t = Elementary Hypersingular d r t"

definition identity :: "space \<Rightarrow> space \<Rightarrow> space \<Rightarrow> boundary_operator" where
  "identity d r t = Elementary Identity d r t"

text \<open>
  The arithmetic of operators: \<^verbatim>\<open>alpha * A\<close>, \<^verbatim>\<open>-A\<close>, \<^verbatim>\<open>A + B\<close> and \<^verbatim>\<open>A - B\<close>.
  A sum is refused when the three spaces of the summands differ.
\<close>

definition op_scale :: "real \<Rightarrow> boundary_operator \<Rightarrow> boundary_operator" where
  "op_scale a A = Scaled a A"

definition op_neg :: "boundary_operator \<Rightarrow> boundary_operator" where
  "op_neg A = op_scale (- 1) A"

definition op_add :: "boundary_operator \<Rightarrow> boundary_operator \<Rightarrow> boundary_operator option" where
  "op_add A B =
     (if domain A = domain B \<and> range' A = range' B \<and> dual_to_range A = dual_to_range B
      then Some (Sum A B) else None)"

definition op_sub :: "boundary_operator \<Rightarrow> boundary_operator \<Rightarrow> boundary_operator option" where
  "op_sub A B = op_add A (op_neg B)"

definition slp_DD :: boundary_operator where
  "slp_DD = single_layer neumann_space_dirichlet_segment dirichlet_space_dirichlet_segment
     neumann_space_dirichlet_segment"

definition dlp_DN :: boundary_operator where
  "dlp_DN = double_layer dirichlet_space_neumann_segment dirichlet_space_dirichlet_segment
     neumann_space_dirichlet_segment"

definition adlp_ND :: boundary_operator where
  "adlp_ND = adjoint_double_layer neumann_space_dirichlet_segment neumann_space_neumann_segment
     dirichlet_space_neumann_segment"

definition hyp_NN :: boundary_operator where
  "hyp_NN = hypersingular dirichlet_space_neumann_segment neumann_space_neumann_segment
     dirichlet_space_neumann_segment"

definition slp_DN :: boundary_operator where
  "slp_DN = single_layer neumann_space_neumann_segment dirichlet_space_dirichlet_segment
     neumann_space_dirichlet_segment"

definition dlp_DD :: boundary_operator where
  "dlp_DD = double_layer dirichlet_space_dirichlet_segment dirichlet_space_dirichlet_segment
     neumann_space_dirichlet_segment"

definition id_DD :: boundary_operator where
  "id_DD = identity dirichlet_space_dirichlet_segment dirichlet_space_dirichlet_segment
     neumann_space_dirichlet_segment"

definition adlp_NN :: boundary_operator where
  "adlp_NN = adjoint_double_layer neumann_space_neumann_segment neumann_space_neumann_segment
     dirichlet_space_neumann_segment"

definition id_NN :: boundary_operator where
  "id_NN = identity neumann_space_neumann_segment neumann_space_neumann_segment
     dirichlet_space_neumann_segment"

definition hyp_ND :: boundary_operator where
  "hyp_ND = hypersingular dirichlet_space_dirichlet_segment neumann_space_neumann_segment
     dirichlet_space_neumann_segment"

subsection \<open>The blocked operator\<close>

text \<open>
  \<^verbatim>\<open>BlockedOperator(m, n)\<close> is an empty m x n grid. An assignment
  \<^verbatim>\<open>blocked[row, col] = op\<close> is refused when the index is outside the grid, or when the
  row already holds an operator with another range or dual space, or the column one with
  another domain space.
\<close>

record blocked_operator =
  bo_m :: nat
  bo_n :: nat
  bo_operators :: "nat \<times> nat \<Rightarrow> boundary_operator option"
  bo_dual_to_range_spaces :: "space option list"
  bo_range_spaces :: "space option list"
  bo_domain_spaces :: "space option list"

definition BlockedOperator :: "nat \<Rightarrow> nat \<Rightarrow> blocked_operator" where
  "BlockedOperator m n =
     \<lparr>bo_m = m, bo_n = n, bo_operators = (\<lambda>key. None),
      bo_dual_to_range_spaces = replicate m None, bo_range_spaces = replicate m None,
      bo_domain_spaces = replicate n None\<rparr>"

fun fits :: "space option \<Rightarrow> space \<Rightarrow> bool" where
  "fits None s = True"
| "fits (Some s') s = (s' = s)"

definition setitem ::
  "blocked_operator \<Rightarrow> nat \<times> nat \<Rightarrow> boundary_operator \<Rightarrow> blocked_operator option" where
  "setitem B key A =
     (case key of (row, col) \<Rightarrow>
        if row < bo_m B \<and> col < bo_n B
        then if fits (bo_range_spaces B ! row) (range' A)
                \<and> fits (bo_dual_to_range_spaces B ! row) (dual_to_range A)
                \<and> fits (bo_domain_spaces B ! col) (domain A)
             then Some (B\<lparr>bo_operators := (bo_operators B)(key := Some A),
                          bo_dual_to_range_spaces :=
                            (bo_dual_to_range_spaces B)[row := Some (dual_to_range A)],
                          bo_range_spaces := (bo_range_spaces B)[row := Some (range' A)],
                          bo_domain_spaces := (bo_domain_spaces B)[col := Some (domain A)]\<rparr>)
             else None
        else None)"

definition getitem :: "blocked_operator \<Rightarrow> nat \<times> nat \<Rightarrow> boundary_operator option" where
  "getitem B key = bo_operators B key"

definition blocked :: "blocked_operator option" where
  "blocked = do {
     b \<leftarrow> Some (BlockedOperator 2 2);
     b \<leftarrow> setitem b (0, 0) slp_DD;
     b \<leftarrow> setitem b (0, 1) (op_neg dlp_DN);
     b \<leftarrow> setitem b (1, 0) adlp_ND;
     setitem b (1, 1) hyp_NN
   }"

subsection \<open>What the library computes\<close>

text \<open>
  The callbacks handed to \<^verbatim>\<open>GridFunction\<close> take the point \<^verbatim>\<open>x\<close>, the normal \<^verbatim>\<open>n\<close>,
  the domain index and the result array, and return the array as they leave it.
\<close>

type_synonym callback = "real list \<Rightarrow> real list \<Rightarrow> nat \<Rightarrow> real list \<Rightarrow> real list"

text \<open>
  The numerical side of the library and of the solver. \<open>'v\<close> is the type of the discrete
  fields a grid function stands for.
  \<^item> \<open>global_dof_count s\<close>: the attribute \<^verbatim>\<open>s.global_dof_count\<close>;
  \<^item> \<open>galerkin_entry k d r t i j\<close>: the entry of the discretised elementary operator for
    the i-th function of \<open>t\<close> and the j-th function of \<open>d\<close>;
  \<^item> \<open>act k d r t v\<close>: the elementary operator applied to a field;
  \<^item> \<open>discretise s dual f\<close>: the field of \<^verbatim>\<open>GridFunction(s, fun=f, dual_space=dual)\<close>;
  \<^item> \<open>expand s c\<close>: the field of \<^verbatim>\<open>GridFunction(s, coefficients=c)\<close>;
  \<^item> \<open>pairing s i v\<close>: the i-th entry of the projections of a field onto \<open>s\<close>;
  \<^item> \<open>gmres A b\<close>: the pair \<^verbatim>\<open>(x, info)\<close> that \<^verbatim>\<open>scipy.sparse.linalg.gmres\<close> returns.
\<close>

record 'v bempp =
  global_dof_count :: "space \<Rightarrow> nat"
  galerkin_entry :: "kernel \<Rightarrow> space \<Rightarrow> space \<Rightarrow> space \<Rightarrow> nat \<Rightarrow> nat \<Rightarrow> real"
  act :: "kernel \<Rightarrow> space \<Rightarrow> space \<Rightarrow> space \<Rightarrow> 'v \<Rightarrow> 'v"
  discretise :: "space \<Rightarrow> space \<Rightarrow> callback \<Rightarrow> 'v"
  expand :: "space \<Rightarrow> real list \<Rightarrow> 'v"
  pairing :: "space \<Rightarrow> nat \<Rightarrow> 'v \<Rightarrow> real"
  gmres :: "real list list \<Rightarrow> real list \<Rightarrow> real list \<times> int"

subsection \<open>Discretised operators\<close>

text \<open>
  \<^verbatim>\<open>op.weak_form()\<close> as a dense matrix, a list of rows: one row for each function of the
  dual space, one column for each function of the domain space. A scalar multiplies every
  entry; a sum adds entry by entry.
\<close>

fun weak_form :: "'v bempp \<Rightarrow> boundary_operator \<Rightarrow> real list list" where
  "weak_form L (Elementary k d r t) =
     map (\<lambda>i. map (\<lambda>j. galerkin_entry L k d r t i j) [0..<global_dof_count L d])
       [0..<global_dof_count L t]"
| "weak_form L (Scaled a A) = map (map (\<lambda>x. a * x)) (weak_form L A)"
| "weak_form L (Sum A B) = map2 (map2 (\<lambda>x y. x + y)) (weak_form L A) (weak_form L B)"

text \<open>Matrices side by side (\<open>hstack\<close>); stacking them is list append.\<close>

fun hstack :: "real list list list \<Rightarrow> real list list" where
  "hstack [] = []"
| "hstack [M] = M"
| "hstack (M # N # Ms) = map2 (\<lambda>r s. r @ s) M (hstack (N # Ms))"

definition zeros :: "nat \<Rightarrow> nat \<Rightarrow> real list list" where
  "zeros m n = replicate m (replicate n 0)"

fun count_of :: "'v bempp \<Rightarrow> space option \<Rightarrow> nat" where
  "count_of L None = 0"
| "count_of L (Some s) = global_dof_count L s"

definition block :: "'v bempp \<Rightarrow> blocked_operator \<Rightarrow> nat \<Rightarrow> nat \<Rightarrow> real list list" where
  "block L B i j =
     (case getitem B (i, j) of
        Some A \<Rightarrow> weak_form L A
      | None \<Rightarrow> zeros (count_of L (bo_dual_to_range_spaces B ! i))
                  (count_of L (bo_domain_spaces B ! j)))"

text \<open>
  \<^verbatim>\<open>blocked.weak_form()\<close>: refused while a row or a column holds no operator at all.
\<close>

definition fill_complete :: "blocked_operator \<Rightarrow> bool" where
  "fill_complete B =
     (list_all (\<lambda>s. s \<noteq> None) (bo_dual_to_range_spaces B)
      \<and> list_all (\<lambda>s. s \<noteq> None) (bo_domain_spaces B))"

definition blocked_weak_form :: "'v bempp \<Rightarrow> blocked_operator \<Rightarrow> real list list option" where
  "blocked_weak_form L B =
     (if fill_complete B
      then Some (concat (map (\<lambda>i. hstack (map (\<lambda>j. block L B i j) [0..<bo_n B])) [0..<bo_m B]))
      else None)"

subsection \<open>Grid functions\<close>

record 'v grid_function =
  gf_space :: space
  gf_val :: 'v

definition GridFunction_fun ::
  "'v bempp \<Rightarrow> space \<Rightarrow> callback \<Rightarrow> space \<Rightarrow> 'v grid_function" where
  "GridFunction_fun L s f dual = \<lparr>gf_space = s, gf_val = discretise L s dual f\<rparr>"

definition GridFunction_coefficients ::
  "'v bempp \<Rightarrow> space \<Rightarrow> real list \<Rightarrow> 'v grid_function" where
  "GridFunction_coefficients L s c = \<lparr>gf_space = s, gf_val = expand L s c\<rparr>"

fun op_apply :: "('v::real_vector) bempp \<Rightarrow> boundary_operator \<Rightarrow> 'v \<Rightarrow> 'v" where
  "op_apply L (Elementary k d r t) v = act L k d r t v"
| "op_apply L (Scaled a A) v = a *\<^sub>R op_apply L A v"
| "op_apply L (Sum A B) v = op_apply L A v + op_apply L B v"

text \<open>
  \<^verbatim>\<open>A * g\<close>: refused unless \<open>g\<close> lives in the domain of \<open>A\<close>; the result lives in the
  range of \<open>A\<close>. \<^verbatim>\<open>g + h\<close> and \<^verbatim>\<open>g - h\<close>: refused unless both live in one space.
\<close>

definition op_times ::
  "('v::real_vector) bempp \<Rightarrow> boundary_operator \<Rightarrow> 'v grid_function \<Rightarrow> 'v grid_function option" where
  "op_times L A g =
     (if domain A = gf_space g
      then Some \<lparr>gf_space = range' A, gf_val = op_apply L A (gf_val g)\<rparr>
      else None)"

definition gf_add ::
  "('v::real_vector) grid_function \<Rightarrow> 'v grid_function \<Rightarrow> 'v grid_function option" where
  "gf_add g h =
     (if gf_space g = gf_space h
      then Some \<lparr>gf_space = gf_space g, gf_val = gf_val g + gf_val h\<rparr>
      else None)"

definition gf_sub ::
  "('v::real_vector) grid_function \<Rightarrow> 'v grid_function \<Rightarrow> 'v grid_function option" where
  "gf_sub g h =
     (if gf_space g = gf_space h
      then Some \<lparr>gf_space = gf_space g, gf_val = gf_val g - gf_val h\<rparr>
      else None)"

text \<open>\<^verbatim>\<open>g.projections(s)\<close>: one entry for each function of \<open>s\<close>.\<close>

definition projections :: "'v bempp \<Rightarrow> 'v grid_function \<Rightarrow> space \<Rightarrow> real list" where
  "projections L g s = map (\<lambda>i. pairing L s i (gf_val g)) [0..<global_dof_count L s]"

subsection \<open>The data and the right-hand side\<close>

definition dirichlet_data_fun :: "real list \<Rightarrow> real" where
  "dirichlet_data_fun x = 1"

definition dirichlet_data :: callback where
  "dirichlet_data x n domain_index res = res[0 := dirichlet_data_fun x]"

definition neumann_data_fun :: "real list \<Rightarrow> real" where
  "neumann_data_fun x = 1"

definition neumann_data :: callback where
  "neumann_data x n domain_index res = res[0 := neumann_data_fun x]"

definition dirichlet_grid_fun :: "'v bempp \<Rightarrow> 'v grid_function" where
  "dirichlet_grid_fun L =
     GridFunction_fun L dirichlet_space_dirichlet_segment dirichlet_data dual_dirichlet_space"

definition neumann_grid_fun :: "'v bempp \<Rightarrow> 'v grid_function" where
  "neumann_grid_fun L =
     GridFunction_fun L neumann_space_neumann_segment neumann_data
       dirichlet_space_neumann_segment"

text \<open>
  The two right-hand-side functions, operation by operation in Python's order. In
  \<^verbatim>\<open>- hyp_ND * dirichlet_grid_fun\<close> the unary minus binds tighter than the product: the
  operator is negated, then applied.
\<close>

definition rhs_fun1 :: "('v::real_vector) bempp \<Rightarrow> 'v grid_function option" where
  "rhs_fun1 L = do {
     A \<leftarrow> op_add (op_scale (1 / 2) id_DD) dlp_DD;
     g \<leftarrow> op_times L A (dirichlet_grid_fun L);
     h \<leftarrow> op_times L slp_DN (neumann_grid_fun L);
     gf_sub g h
   }"

definition rhs_fun2 :: "('v::real_vector) bempp \<Rightarrow> 'v grid_function option" where
  "rhs_fun2 L = do {
     g \<leftarrow> op_times L (op_neg hyp_ND) (dirichlet_grid_fun L);
     A \<leftarrow> op_sub (op_scale (1 / 2) id_NN) adlp_NN;
     h \<leftarrow> op_times L A (neumann_grid_fun L);
     gf_add g h
   }"

subsection \<open>The system and its solution\<close>

definition lhs :: "'v bempp \<Rightarrow> real list list option" where
  "lhs L = do { b \<leftarrow> blocked; blocked_weak_form L b }"

definition rhs :: "('v::real_vector) bempp \<Rightarrow> real list option" where
  "rhs L = do {
     f1 \<leftarrow> rhs_fun1 L;
     f2 \<leftarrow> rhs_fun2 L;
     Some (concat [projections L f1 neumann_space_dirichlet_segment,
                   projections L f2 dirichlet_space_neumann_segment])
   }"

text \<open>
  \<^verbatim>\<open>x, info = gmres(lhs, rhs)\<close>. The solver refuses a matrix that is not square and a
  right-hand side of another length.
\<close>

definition solve :: "('v::real_vector) bempp \<Rightarrow> (real list \<times> int) option" where
  "solve L = do {
     A \<leftarrow> lhs L;
     b \<leftarrow> rhs L;
     if list_all (\<lambda>row. length row = length A) A \<and> length b = length A
     then Some (gmres L A b) else None
   }"

subsection \<open>Splitting the solution and recombining\<close>

definition nx0 :: "'v bempp \<Rightarrow> nat" where
  "nx0 L = global_dof_count L neumann_space_dirichlet_segment"

definition neumann_solution :: "'v bempp \<Rightarrow> real list \<Rightarrow> 'v grid_function" where
  "neumann_solution L x =
     GridFunction_coefficients L neumann_space_dirichlet_segment (take (nx0 L) x)"

definition dirichlet_solution :: "'v bempp \<Rightarrow> real list \<Rightarrow> 'v grid_function" where
  "dirichlet_solution L x =
     GridFunction_coefficients L dirichlet_space_neumann_segment (drop (nx0 L) x)"

definition neumann_imbedding_dirichlet_segment :: boundary_operator where
  "neumann_imbedding_dirichlet_segment =
     identity neumann_space_dirichlet_segment global_neumann_space global_neumann_space"

definition neumann_imbedding_neumann_segment :: boundary_operator where
  "neumann_imbedding_neumann_segment =
     identity neumann_space_neumann_segment global_neumann_space global_neumann_space"

definition dirichlet_imbedding_dirichlet_segment :: boundary_operator where
  "dirichlet_imbedding_dirichlet_segment =
     identity dirichlet_space_dirichlet_segment global_dirichlet_space global_dirichlet_space"

definition dirichlet_imbedding_neumann_segment :: boundary_operator where
  "dirichlet_imbedding_neumann_segment =
     identity dirichlet_space_neumann_segment global_dirichlet_space global_dirichlet_space"

definition dirichlet :: "('v::real_vector) bempp \<Rightarrow> real list \<Rightarrow> 'v grid_function option" where
  "dirichlet L x = do {
     g \<leftarrow> op_times L dirichlet_imbedding_dirichlet_segment (dirichlet_grid_fun L);
     h \<leftarrow> op_times L dirichlet_imbedding_neumann_segment (dirichlet_solution L x);
     gf_add g h
   }"

definition neumann :: "('v::real_vector) bempp \<Rightarrow> real list \<Rightarrow> 'v grid_function option" where
  "neumann L x = do {
     g \<leftarrow> op_times L neumann_imbedding_neumann_segment (neumann_grid_fun L);
     h \<leftarrow> op_times L neumann_imbedding_dirichlet_segment (neumann_solution L x);
     gf_add g h
   }"

text \<open>The whole script: the two global grid functions and the solver's \<^verbatim>\<open>info\<close>.\<close>

definition notebook ::
  "('v::real_vector) bempp \<Rightarrow> ('v grid_function \<times> 'v grid_function \<times> int) option" where
  "notebook L = do {
     (x, info) \<leftarrow> solve L;
     d \<leftarrow> dirichlet L x;
     n \<leftarrow> neumann L x;
     Some (d, n, info)
   }"

subsection \<open>Operators whose matrix is well formed\<close>

text \<open>
  \<open>op_add\<close> only ever builds a sum of operators on the same three spaces; \<open>compatible\<close>
  says so of a whole operator expression.
\<close>

fun compatible :: "boundary_operator \<Rightarrow> bool" where
  "compatible (Elementary k d r t) = True"
| "compatible (Scaled a A) = compatible A"
| "compatible (Sum A B) =
     (compatible A \<and> compatible B \<and> domain A = domain B \<and> range' A = range' B
      \<and> dual_to_range A = dual_to_range B)"

subsection \<open>The functions a space holds\<close>

text \<open>
  Modelled from the spec: \<^verbatim>\<open>function_space\<close> itself belongs to the library and is not
  part of the repository, so which functions of the grid a space holds is written from the
  Space Builder of the specification (the data model of a Function Space and step 3 of
  section 4.2) together with the notebook's explanation of the options (the cell before the
  spaces are built):
  \<^item> a closed segment holds its boundary edges and the dofs on them; an open one does not;
  \<^item> \<^verbatim>\<open>element_on_segment=True\<close> keeps only functions that live on elements of the
    segment, which drops the functions just across a boundary edge;
  \<^item> \<^verbatim>\<open>reference_point_on_segment=True\<close> (the default) keeps only dofs whose reference
    point, the dof position, lies in the segment and, on an open segment, not on the
    excluded boundary;
  \<^item> with \<^verbatim>\<open>reference_point_on_segment=False\<close> the reference point is not looked at:
    the functions whose support lies inside the segment are kept, also those with their
    reference point on the excluded boundary.

  The sense of \<^verbatim>\<open>reference_point_on_segment\<close> is the one of the data model and of the
  notebook. The options select dofs only: \<^verbatim>\<open>strictly_on_segment\<close> changes the support of
  the functions that are kept, not which ones are kept, and the kind and the order of a
  space decide which functions the grid offers, the list \<open>ds\<close> below.

  A function of the grid is described by where it sits: the domain indices of the elements
  that meet at its reference point, and of the elements it lives on.
\<close>

record dof =
  ref_segments :: "nat list"
  support_segments :: "nat list"

definition reference_point_in :: "bool \<Rightarrow> nat list \<Rightarrow> dof \<Rightarrow> bool" where
  "reference_point_in cl D d =
     (if cl then list_ex (\<lambda>s. s \<in> set D) (ref_segments d)
      else ref_segments d \<noteq> [] \<and> list_all (\<lambda>s. s \<in> set D) (ref_segments d))"

definition on_boundary :: "nat list \<Rightarrow> dof \<Rightarrow> bool" where
  "on_boundary D d =
     (list_ex (\<lambda>s. s \<in> set D) (ref_segments d) \<and> list_ex (\<lambda>s. s \<notin> set D) (ref_segments d))"

definition support_inside :: "nat list \<Rightarrow> dof \<Rightarrow> bool" where
  "support_inside D d = list_all (\<lambda>s. s \<in> set D) (support_segments d)"

definition dof_in_space :: "space \<Rightarrow> dof \<Rightarrow> bool" where
  "dof_in_space sp d =
     (case domains sp of
        None \<Rightarrow> True
      | Some D \<Rightarrow>
          if reference_point_on_segment sp
          then reference_point_in (closed' sp) D d
               \<and> (if element_on_segment sp then support_inside D d else True)
          else support_inside D d)"





subsection \<open>An example\<close>

text \<open>
  An example of a library, for evaluating the definitions: the dof counts of the notebook's
  seven spaces on a cube with two triangles on each face and the two Dirichlet faces
  opposite each other. The piecewise linear discontinuous spaces have three functions on
  each triangle: 12 on the Dirichlet faces, 24 on the Neumann faces, 36 in all. The
  continuous quadratic spaces have one function at each of the 8 vertices and 18 edges: 18
  on the closed Dirichlet faces, the other 8 on the open Neumann faces, 26 in all. No other
  space is given a function. Fields are real numbers here, and the solver hands back its
  right-hand side.
\<close>

definition coarse_cube_count :: "space \<Rightarrow> nat" where
  "coarse_cube_count s =
     (if s = neumann_space_dirichlet_segment then 12
      else if s = neumann_space_neumann_segment then 24
      else if s = global_neumann_space then 36
      else if s = dirichlet_space_dirichlet_segment then 18
      else if s = dual_dirichlet_space then 18
      else if s = dirichlet_space_neumann_segment then 8
      else if s = global_dirichlet_space then 26
      else 0)"

definition coarse_cube :: "real bempp" where
  "coarse_cube =
     \<lparr>global_dof_count = coarse_cube_count,
      galerkin_entry = (\<lambda>k d r t i j. 1),
      act = (\<lambda>k d r t v. v),
      discretise = (\<lambda>s dual f. 1),
      expand = (\<lambda>s c. sum_list c),
      pairing = (\<lambda>s i v. v),
      gmres = (\<lambda>A b. (b, 0))\<rparr>"

text \<open>
  Four functions of a grid with the notebook's segments: a discontinuous linear function
  on a triangle of face 2 whose reference point is a vertex on the edge shared with face 1,
  and continuous functions at a point inside face 1, at a point on that shared edge, and at
  a point inside face 2.
\<close>

definition corner_fn :: dof where
  "corner_fn = \<lparr>ref_segments = [2, 1], support_segments = [2]\<rparr>"


definition on_edge_1_2 :: dof where
  "on_edge_1_2 = \<lparr>ref_segments = [1, 2], support_segments = [1, 2]\<rparr>"

definition inside_2 :: dof where
  "inside_2 = \<lparr>ref_segments = [2, 2], support_segments = [2, 2]\<rparr>"

section \<open>Properties\<close>

subsection \<open>Evaluating the script\<close>

lemmas space_defs = neumann_space_dirichlet_segment_def neumann_space_neumann_segment_def
  dirichlet_space_dirichlet_segment_def dirichlet_space_neumann_segment_def
  dual_dirichlet_space_def global_neumann_space_def global_dirichlet_space_def
  function_space_def

lemmas operator_defs = slp_DD_def dlp_DN_def adlp_ND_def hyp_NN_def slp_DN_def dlp_DD_def
  id_DD_def adlp_NN_def id_NN_def hyp_ND_def single_layer_def double_layer_def
  adjoint_double_layer_def hypersingular_def identity_def op_neg_def op_scale_def

text \<open>The four assignments all pass the checks of the blocked operator.\<close>

lemma blocked_eq:
  "blocked = Some \<lparr>bo_m = 2, bo_n = 2,
     bo_operators = (\<lambda>key. None)((0,0) := Some slp_DD, (0,1) := Some (op_neg dlp_DN),
        (1,0) := Some adlp_ND, (1,1) := Some hyp_NN),
     bo_dual_to_range_spaces = [Some neumann_space_dirichlet_segment, Some dirichlet_space_neumann_segment],
     bo_range_spaces = [Some dirichlet_space_dirichlet_segment, Some neumann_space_neumann_segment],
     bo_domain_spaces = [Some neumann_space_dirichlet_segment, Some dirichlet_space_neumann_segment]\<rparr>"
  by (simp add: blocked_def BlockedOperator_def setitem_def operator_defs numeral_2_eq_2)

text \<open>Both right-hand-side functions are built without a refused operation.\<close>

lemma rhs_fun1_eq:
  "rhs_fun1 L = Some \<lparr>gf_space = dirichlet_space_dirichlet_segment,
     gf_val = ((1 / 2) *\<^sub>R act L Identity dirichlet_space_dirichlet_segment
                   dirichlet_space_dirichlet_segment neumann_space_dirichlet_segment
                   (gf_val (dirichlet_grid_fun L))
               + act L DoubleLayer dirichlet_space_dirichlet_segment
                   dirichlet_space_dirichlet_segment neumann_space_dirichlet_segment
                   (gf_val (dirichlet_grid_fun L)))
              - act L SingleLayer neumann_space_neumann_segment
                   dirichlet_space_dirichlet_segment neumann_space_dirichlet_segment
                   (gf_val (neumann_grid_fun L))\<rparr>"
  by (simp add: rhs_fun1_def op_add_def op_times_def gf_sub_def operator_defs
      dirichlet_grid_fun_def neumann_grid_fun_def GridFunction_fun_def)

lemma rhs_fun2_eq:
  "rhs_fun2 L = Some \<lparr>gf_space = neumann_space_neumann_segment,
     gf_val = ((1 / 2) *\<^sub>R act L Identity neumann_space_neumann_segment
                   neumann_space_neumann_segment dirichlet_space_neumann_segment
                   (gf_val (neumann_grid_fun L))
               - act L AdjointDoubleLayer neumann_space_neumann_segment
                   neumann_space_neumann_segment dirichlet_space_neumann_segment
                   (gf_val (neumann_grid_fun L)))
              - act L Hypersingular dirichlet_space_dirichlet_segment
                   neumann_space_neumann_segment dirichlet_space_neumann_segment
                   (gf_val (dirichlet_grid_fun L))\<rparr>"
  by (simp add: rhs_fun2_def op_add_def op_sub_def op_times_def gf_add_def operator_defs
      dirichlet_grid_fun_def neumann_grid_fun_def GridFunction_fun_def)

lemma rhs_defined: "\<exists>r. rhs L = Some r"
  by (simp add: rhs_def rhs_fun1_eq rhs_fun2_eq)

subsection \<open>Shapes\<close>

lemma length_projections: "length (projections L g s) = global_dof_count L s"
  by (simp add: projections_def)

lemma length_rhs:
  "rhs L = Some r \<Longrightarrow>
   length r = global_dof_count L neumann_space_dirichlet_segment
            + global_dof_count L dirichlet_space_neumann_segment"
  by (auto simp: rhs_def rhs_fun1_eq rhs_fun2_eq length_projections)

lemma upt_2: "[0..<2] = [0, Suc 0]"
  by (simp add: numeral_2_eq_2)

lemma lhs_eq:
  "lhs L = Some (map2 (\<lambda>r s. r @ s) (weak_form L slp_DD) (weak_form L (op_neg dlp_DN))
               @ map2 (\<lambda>r s. r @ s) (weak_form L adlp_ND) (weak_form L hyp_NN))"
  by (simp add: lhs_def blocked_eq blocked_weak_form_def fill_complete_def upt_2 block_def
      getitem_def)

lemma lhs_defined: "\<exists>A. lhs L = Some A"
  by (simp add: lhs_eq)

lemma map_length_elementary:
  "map length (weak_form L (Elementary k d r t)) =
     replicate (global_dof_count L t) (global_dof_count L d)"
  by (simp add: map_replicate_const comp_def)

lemma map_length_scaled:
  "map length (weak_form L (Scaled a A)) = map length (weak_form L A)"
  by (simp add: comp_def)

lemma map_length_map2_append:
  "map length (map2 (\<lambda>r s. r @ s) (M :: real list list) N) = map2 (\<lambda>m n. m + n) (map length M) (map length N)"
  by (induction M arbitrary: N) (auto simp: neq_Nil_conv split: list.splits, case_tac N, auto)

lemma map2_replicate:
  "map2 f (replicate n a) (replicate n b) = replicate n (f a b)"
  by (induction n) auto

lemma map_length_hstack2:
  "map length (M :: real list list) = replicate m a \<Longrightarrow> map length N = replicate m b \<Longrightarrow>
   map length (map2 (\<lambda>r s. r @ s) M N) = replicate m (a + b)"
  by (simp only: map_length_map2_append map2_replicate)

lemma map_length_lhs:
  assumes "lhs L = Some A"
  shows "map length A =
     replicate (global_dof_count L neumann_space_dirichlet_segment
                + global_dof_count L dirichlet_space_neumann_segment)
       (global_dof_count L neumann_space_dirichlet_segment
        + global_dof_count L dirichlet_space_neumann_segment)"
proof -
  have A: "A = map2 (\<lambda>r s. r @ s) (weak_form L slp_DD) (weak_form L (op_neg dlp_DN))
               @ map2 (\<lambda>r s. r @ s) (weak_form L adlp_ND) (weak_form L hyp_NN)"
    using assms by (simp add: lhs_eq)
  have top: "map length (map2 (\<lambda>r s. r @ s) (weak_form L slp_DD) (weak_form L (op_neg dlp_DN)))
      = replicate (global_dof_count L neumann_space_dirichlet_segment)
          (global_dof_count L neumann_space_dirichlet_segment
           + global_dof_count L dirichlet_space_neumann_segment)"
    by (rule map_length_hstack2)
      (simp_all only: operator_defs map_length_elementary map_length_scaled)
  have bot: "map length (map2 (\<lambda>r s. r @ s) (weak_form L adlp_ND) (weak_form L hyp_NN))
      = replicate (global_dof_count L dirichlet_space_neumann_segment)
          (global_dof_count L neumann_space_dirichlet_segment
           + global_dof_count L dirichlet_space_neumann_segment)"
    by (rule map_length_hstack2)
      (simp_all only: operator_defs map_length_elementary map_length_scaled)
  show ?thesis
    unfolding A map_append top bot replicate_add ..
qed

lemma length_lhs:
  "lhs L = Some A \<Longrightarrow>
   length A = global_dof_count L neumann_space_dirichlet_segment
            + global_dof_count L dirichlet_space_neumann_segment"
  using map_length_lhs [of L A] by (metis length_map length_replicate)

lemma square_lhs:
  "lhs L = Some A \<Longrightarrow> list_all (\<lambda>row. length row = length A) A"
proof -
  assume a: "lhs L = Some A"
  have "\<forall>n\<in>set (map length A). n = length A"
    unfolding map_length_lhs [OF a] length_lhs [OF a] by simp
  then show ?thesis by (simp add: list_all_iff)
qed

lemma solve_eq:
  assumes A: "lhs L = Some A" and r: "rhs L = Some r"
  shows "solve L = Some (gmres L A r)"
proof -
  have "length r = length A"
    by (simp add: length_lhs [OF A] length_rhs [OF r])
  with square_lhs [OF A] show ?thesis
    by (simp add: solve_def A r)
qed

subsection \<open>The block system\<close>

text \<open>
  C1. The blocked operator the script assembles is [[V_DD, -K_DN], [K'_ND, W_NN]]: block
  (0,0) is the single-layer operator with all three spaces on the Dirichlet segments, block
  (0,1) is the double-layer operator times -1 with its domain (trial) space on the Neumann
  segments, block (1,0) is the adjoint double-layer operator, block (1,1) is the
  hypersingular operator with all three spaces on the Neumann segments. Column 0 acts on the
  discontinuous (Neumann data) space on the Dirichlet segments, column 1 on the continuous
  (Dirichlet data) space on the Neumann segments: the unknowns (t, u).
\<close>

theorem blocked_structure:
  "\<exists>b. blocked = Some b
     \<and> getitem b (0, 0) = Some (Elementary SingleLayer neumann_space_dirichlet_segment
           dirichlet_space_dirichlet_segment neumann_space_dirichlet_segment)
     \<and> getitem b (0, 1) = Some (Scaled (- 1) (Elementary DoubleLayer dirichlet_space_neumann_segment
           dirichlet_space_dirichlet_segment neumann_space_dirichlet_segment))
     \<and> getitem b (1, 0) = Some (Elementary AdjointDoubleLayer neumann_space_dirichlet_segment
           neumann_space_neumann_segment dirichlet_space_neumann_segment)
     \<and> getitem b (1, 1) = Some (Elementary Hypersingular dirichlet_space_neumann_segment
           neumann_space_neumann_segment dirichlet_space_neumann_segment)
     \<and> bo_domain_spaces b
         = [Some neumann_space_dirichlet_segment, Some dirichlet_space_neumann_segment]
     \<and> kind neumann_space_dirichlet_segment = DP
     \<and> domains neumann_space_dirichlet_segment = Some dirichlet_segments
     \<and> domains dirichlet_space_dirichlet_segment = Some dirichlet_segments
     \<and> kind dirichlet_space_neumann_segment = P
     \<and> domains dirichlet_space_neumann_segment = Some neumann_segments
     \<and> domains neumann_space_neumann_segment = Some neumann_segments"
  by (simp add: blocked_eq getitem_def operator_defs space_defs)

text \<open>
  C10. Each right-hand-side function is projected onto the dual space of the operators of
  its block row: the discontinuous space on the Dirichlet segments for row 0, the
  continuous space on the Neumann segments for row 1. So the right-hand side is as long as
  the discretised blocked operator has rows, the operator is square, the solver accepts
  the system, and the index \<open>nx0\<close> at which the solution is split is the number of columns
  of both blocks of block column 0.
\<close>

theorem system_dimensions:
  "\<exists>b A r f1 f2.
     blocked = Some b \<and> lhs L = Some A \<and> rhs_fun1 L = Some f1 \<and> rhs_fun2 L = Some f2
     \<and> rhs L = Some r
     \<and> r = projections L f1 neumann_space_dirichlet_segment
           @ projections L f2 dirichlet_space_neumann_segment
     \<and> map (map_option dual_to_range) [getitem b (0, 0), getitem b (0, 1)]
         = [Some neumann_space_dirichlet_segment, Some neumann_space_dirichlet_segment]
     \<and> map (map_option dual_to_range) [getitem b (1, 0), getitem b (1, 1)]
         = [Some dirichlet_space_neumann_segment, Some dirichlet_space_neumann_segment]
     \<and> length r = length A
     \<and> list_all (\<lambda>row. length row = length r) A
     \<and> map length (block L b 0 0)
         = replicate (global_dof_count L neumann_space_dirichlet_segment) (nx0 L)
     \<and> map length (block L b 1 0)
         = replicate (global_dof_count L dirichlet_space_neumann_segment) (nx0 L)
     \<and> solve L = Some (gmres L A r)"
proof -
  obtain A where A: "lhs L = Some A" using lhs_defined by blast
  obtain r where r: "rhs L = Some r" using rhs_defined by blast
  obtain b where b: "blocked = Some b"
    and b00: "getitem b (0, 0) = Some slp_DD" and b01: "getitem b (0, 1) = Some (op_neg dlp_DN)"
    and b10: "getitem b (1, 0) = Some adlp_ND" and b11: "getitem b (1, 1) = Some hyp_NN"
    by (simp add: blocked_eq getitem_def)
  obtain f1 where f1: "rhs_fun1 L = Some f1" by (simp add: rhs_fun1_eq)
  obtain f2 where f2: "rhs_fun2 L = Some f2" by (simp add: rhs_fun2_eq)
  have cat: "r = projections L f1 neumann_space_dirichlet_segment
           @ projections L f2 dirichlet_space_neumann_segment"
    using r f1 f2 by (simp add: rhs_def)
  have len: "length r = length A"
    by (simp add: length_lhs [OF A] length_rhs [OF r])
  have sq: "list_all (\<lambda>row. length row = length r) A"
    using square_lhs [OF A] len by simp
  have duals0: "map (map_option dual_to_range) [getitem b (0, 0), getitem b (0, 1)]
         = [Some neumann_space_dirichlet_segment, Some neumann_space_dirichlet_segment]"
    using b00 b01 by (simp add: operator_defs)
  have duals1: "map (map_option dual_to_range) [getitem b (1, 0), getitem b (1, 1)]
         = [Some dirichlet_space_neumann_segment, Some dirichlet_space_neumann_segment]"
    using b10 b11 by (simp add: operator_defs)
  have c0: "map length (block L b 0 0)
         = replicate (global_dof_count L neumann_space_dirichlet_segment) (nx0 L)"
    by (simp only: block_def b00 option.case operator_defs map_length_elementary nx0_def)
  have c1: "map length (block L b 1 0)
         = replicate (global_dof_count L dirichlet_space_neumann_segment) (nx0 L)"
    by (simp only: block_def b10 option.case operator_defs map_length_elementary nx0_def)
  note sol = solve_eq [OF A r]
  show ?thesis
    apply (rule exI [of _ b], rule exI [of _ A], rule exI [of _ r])
    apply (rule exI [of _ f1], rule exI [of _ f2])
    using A r b f1 f2 cat len sq duals0 duals1 c0 c1 sol by (intro conjI)
qed

subsection \<open>The right-hand side\<close>

text \<open>
  C2. The right-hand side applies the known-data operators to the two data grid functions
  g_D (on the continuous space of the Dirichlet segments) and g_N (on the discontinuous
  space of the Neumann segments): the first function is (0.5 I_DD + K_DD) g_D - V_DN g_N,
  the second (0.5 I_NN - K'_NN) g_N - W_ND g_D. The vector is the projections of the first
  onto the discontinuous space of the Dirichlet segments followed by the projections of
  the second onto the continuous space of the Neumann segments, the dual spaces of the two
  block rows.
\<close>

theorem rhs_structure:
  "\<exists>f1 f2.
     rhs_fun1 L = Some f1 \<and> rhs_fun2 L = Some f2
     \<and> gf_val f1 =
         ((1 / 2) *\<^sub>R op_apply L id_DD (gf_val (dirichlet_grid_fun L))
            + op_apply L dlp_DD (gf_val (dirichlet_grid_fun L)))
         - op_apply L slp_DN (gf_val (neumann_grid_fun L))
     \<and> gf_val f2 =
         ((1 / 2) *\<^sub>R op_apply L id_NN (gf_val (neumann_grid_fun L))
            - op_apply L adlp_NN (gf_val (neumann_grid_fun L)))
         - op_apply L hyp_ND (gf_val (dirichlet_grid_fun L))
     \<and> dirichlet_grid_fun L =
         GridFunction_fun L dirichlet_space_dirichlet_segment dirichlet_data
           dual_dirichlet_space
     \<and> neumann_grid_fun L =
         GridFunction_fun L neumann_space_neumann_segment neumann_data
           dirichlet_space_neumann_segment
     \<and> rhs L = Some (projections L f1 neumann_space_dirichlet_segment
                      @ projections L f2 dirichlet_space_neumann_segment)
     \<and> dual_to_range slp_DD = neumann_space_dirichlet_segment
     \<and> dual_to_range hyp_NN = dirichlet_space_neumann_segment
     \<and> gf_space f1 = dirichlet_space_dirichlet_segment
     \<and> gf_space f2 = neumann_space_neumann_segment
     \<and> gf_val (dirichlet_grid_fun L) =
         discretise L dirichlet_space_dirichlet_segment dual_dirichlet_space dirichlet_data
     \<and> gf_val (neumann_grid_fun L) =
         discretise L neumann_space_neumann_segment dirichlet_space_neumann_segment
           neumann_data
     \<and> gf_val f1 =
         ((1 / 2) *\<^sub>R act L Identity dirichlet_space_dirichlet_segment
                      dirichlet_space_dirichlet_segment neumann_space_dirichlet_segment
                      (discretise L dirichlet_space_dirichlet_segment dual_dirichlet_space
                         dirichlet_data)
            + act L DoubleLayer dirichlet_space_dirichlet_segment
                dirichlet_space_dirichlet_segment neumann_space_dirichlet_segment
                (discretise L dirichlet_space_dirichlet_segment dual_dirichlet_space
                   dirichlet_data))
         - act L SingleLayer neumann_space_neumann_segment
             dirichlet_space_dirichlet_segment neumann_space_dirichlet_segment
             (discretise L neumann_space_neumann_segment dirichlet_space_neumann_segment
                neumann_data)
     \<and> gf_val f2 =
         ((1 / 2) *\<^sub>R act L Identity neumann_space_neumann_segment
                      neumann_space_neumann_segment dirichlet_space_neumann_segment
                      (discretise L neumann_space_neumann_segment
                         dirichlet_space_neumann_segment neumann_data)
            - act L AdjointDoubleLayer neumann_space_neumann_segment
                neumann_space_neumann_segment dirichlet_space_neumann_segment
                (discretise L neumann_space_neumann_segment
                   dirichlet_space_neumann_segment neumann_data))
         - act L Hypersingular dirichlet_space_dirichlet_segment
             neumann_space_neumann_segment dirichlet_space_neumann_segment
             (discretise L dirichlet_space_dirichlet_segment dual_dirichlet_space
                dirichlet_data)
     \<and> rhs L =
         Some (map (\<lambda>i. pairing L neumann_space_dirichlet_segment i (gf_val f1))
                 [0..<global_dof_count L neumann_space_dirichlet_segment]
               @ map (\<lambda>i. pairing L dirichlet_space_neumann_segment i (gf_val f2))
                   [0..<global_dof_count L dirichlet_space_neumann_segment])"
  by (simp add: rhs_fun1_eq rhs_fun2_eq rhs_def operator_defs dirichlet_grid_fun_def
      neumann_grid_fun_def GridFunction_fun_def projections_def)

subsection \<open>Recombination\<close>

lemma dirichlet_eq:
  "dirichlet L x = Some \<lparr>gf_space = global_dirichlet_space,
     gf_val = op_apply L dirichlet_imbedding_dirichlet_segment (gf_val (dirichlet_grid_fun L))
            + op_apply L dirichlet_imbedding_neumann_segment (gf_val (dirichlet_solution L x))\<rparr>"
  by (simp add: dirichlet_def op_times_def gf_add_def dirichlet_imbedding_dirichlet_segment_def
      dirichlet_imbedding_neumann_segment_def identity_def dirichlet_grid_fun_def
      dirichlet_solution_def GridFunction_fun_def GridFunction_coefficients_def)

lemma neumann_eq:
  "neumann L x = Some \<lparr>gf_space = global_neumann_space,
     gf_val = op_apply L neumann_imbedding_neumann_segment (gf_val (neumann_grid_fun L))
            + op_apply L neumann_imbedding_dirichlet_segment (gf_val (neumann_solution L x))\<rparr>"
  by (simp add: neumann_def op_times_def gf_add_def neumann_imbedding_dirichlet_segment_def
      neumann_imbedding_neumann_segment_def identity_def neumann_grid_fun_def
      neumann_solution_def GridFunction_fun_def GridFunction_coefficients_def)

text \<open>
  C6. The solution vector is split at \<open>nx0\<close>, the dof count of the discontinuous space
  on the Dirichlet segments; the first part becomes the coefficients of the solved Neumann
  data on that space, the rest those of the solved Dirichlet data on the continuous space of
  the Neumann segments. The global Dirichlet function is the identity embedding of the known
  Dirichlet data plus that of the solved Dirichlet data, the global Neumann function the
  embedding of the known Neumann data plus that of the solved Neumann data. Both are built
  without a refused operation and live in the global spaces, so they have the global spaces'
  dof counts.
\<close>

theorem recombination:
  "\<exists>d n.
     dirichlet L x = Some d \<and> neumann L x = Some n
     \<and> nx0 L = global_dof_count L neumann_space_dirichlet_segment
     \<and> neumann_solution L x =
         GridFunction_coefficients L neumann_space_dirichlet_segment (take (nx0 L) x)
     \<and> dirichlet_solution L x =
         GridFunction_coefficients L dirichlet_space_neumann_segment (drop (nx0 L) x)
     \<and> take (nx0 L) x @ drop (nx0 L) x = x
     \<and> gf_val d =
         act L Identity dirichlet_space_dirichlet_segment global_dirichlet_space
           global_dirichlet_space (gf_val (dirichlet_grid_fun L))
         + act L Identity dirichlet_space_neumann_segment global_dirichlet_space
             global_dirichlet_space (gf_val (dirichlet_solution L x))
     \<and> gf_val n =
         act L Identity neumann_space_neumann_segment global_neumann_space
           global_neumann_space (gf_val (neumann_grid_fun L))
         + act L Identity neumann_space_dirichlet_segment global_neumann_space
             global_neumann_space (gf_val (neumann_solution L x))
     \<and> gf_space (dirichlet_grid_fun L) = dirichlet_space_dirichlet_segment
     \<and> gf_space (neumann_grid_fun L) = neumann_space_neumann_segment
     \<and> gf_space d = global_dirichlet_space \<and> gf_space n = global_neumann_space
     \<and> global_dof_count L (gf_space d) = global_dof_count L global_dirichlet_space
     \<and> global_dof_count L (gf_space n) = global_dof_count L global_neumann_space
     \<and> domains global_dirichlet_space = None \<and> domains global_neumann_space = None
     \<and> neumann_solution L x =
         \<lparr>gf_space = neumann_space_dirichlet_segment,
          gf_val = expand L neumann_space_dirichlet_segment
                     (take (global_dof_count L neumann_space_dirichlet_segment) x)\<rparr>
     \<and> dirichlet_solution L x =
         \<lparr>gf_space = dirichlet_space_neumann_segment,
          gf_val = expand L dirichlet_space_neumann_segment
                     (drop (global_dof_count L neumann_space_dirichlet_segment) x)\<rparr>
     \<and> length (take (nx0 L) x)
         = min (length x) (global_dof_count L neumann_space_dirichlet_segment)
     \<and> length (drop (nx0 L) x)
         = length x - global_dof_count L neumann_space_dirichlet_segment
     \<and> gf_val d =
         act L Identity dirichlet_space_dirichlet_segment global_dirichlet_space
           global_dirichlet_space
           (discretise L dirichlet_space_dirichlet_segment dual_dirichlet_space
              dirichlet_data)
         + act L Identity dirichlet_space_neumann_segment global_dirichlet_space
             global_dirichlet_space
             (expand L dirichlet_space_neumann_segment
                (drop (global_dof_count L neumann_space_dirichlet_segment) x))
     \<and> gf_val n =
         act L Identity neumann_space_neumann_segment global_neumann_space
           global_neumann_space
           (discretise L neumann_space_neumann_segment dirichlet_space_neumann_segment
              neumann_data)
         + act L Identity neumann_space_dirichlet_segment global_neumann_space
             global_neumann_space
             (expand L neumann_space_dirichlet_segment
                (take (global_dof_count L neumann_space_dirichlet_segment) x))"
  by (simp add: dirichlet_eq neumann_eq neumann_solution_def dirichlet_solution_def nx0_def
      dirichlet_imbedding_dirichlet_segment_def dirichlet_imbedding_neumann_segment_def
      neumann_imbedding_dirichlet_segment_def neumann_imbedding_neumann_segment_def
      identity_def dirichlet_grid_fun_def neumann_grid_fun_def GridFunction_fun_def
      GridFunction_coefficients_def
      global_dirichlet_space_def global_neumann_space_def function_space_def)

subsection \<open>The whole script\<close>

text \<open>
  The script runs to its end for every behaviour of the library and of the solver: the
  solver's \<^verbatim>\<open>info\<close> is never read, and the solution is recombined whatever it is.
\<close>

lemma notebook_runs:
  "\<exists>A r d n.
     lhs L = Some A \<and> rhs L = Some r
     \<and> dirichlet L (fst (gmres L A r)) = Some d \<and> neumann L (fst (gmres L A r)) = Some n
     \<and> notebook L = Some (d, n, snd (gmres L A r))"
proof -
  obtain A where A: "lhs L = Some A" using lhs_defined by blast
  obtain r where r: "rhs L = Some r" using rhs_defined by blast
  obtain x info where g: "gmres L A r = (x, info)" by (cases "gmres L A r")
  obtain d where d: "dirichlet L x = Some d" by (simp add: dirichlet_eq)
  obtain n where n: "neumann L x = Some n" by (simp add: neumann_eq)
  have "notebook L = Some (d, n, info)"
    by (simp add: notebook_def solve_eq [OF A r] g d n)
  with A r g d n show ?thesis by simp
qed

subsection \<open>The shape of a discretised operator\<close>

lemma coarse_cube_counts:
  "global_dof_count coarse_cube neumann_space_dirichlet_segment = 12"
  "global_dof_count coarse_cube neumann_space_neumann_segment = 24"
  "global_dof_count coarse_cube dirichlet_space_dirichlet_segment = 18"
  "global_dof_count coarse_cube dirichlet_space_neumann_segment = 8"
  "global_dof_count coarse_cube global_neumann_space = 36"
  "global_dof_count coarse_cube global_dirichlet_space = 26"
  by (simp_all add: coarse_cube_def coarse_cube_count_def space_defs dirichlet_segments_def
      neumann_segments_def)

lemma weak_form_rows:
  "compatible A \<Longrightarrow> length (weak_form L A) = global_dof_count L (dual_to_range A)"
  by (induction A) simp_all

lemma weak_form_cols:
  "compatible A \<Longrightarrow> row \<in> set (weak_form L A) \<Longrightarrow> length row = global_dof_count L (domain A)"
proof (induction A arbitrary: row)
  case (Elementary k d r t)
  then show ?case by auto
next
  case (Scaled a A)
  then show ?case by auto
next
  case (Sum A B)
  from Sum.prems(2) obtain i where
    i: "i < length (weak_form L A)" "i < length (weak_form L B)"
    and row: "row = map2 (\<lambda>x y. x + y) (weak_form L A ! i) (weak_form L B ! i)"
    by (auto simp: set_zip)
  from i have "weak_form L A ! i \<in> set (weak_form L A)" "weak_form L B ! i \<in> set (weak_form L B)"
    by simp_all
  with Sum row show ?case by auto
qed

lemma map_length_weak_form:
  assumes "compatible A"
  shows "map length (weak_form L A) =
     replicate (global_dof_count L (dual_to_range A)) (global_dof_count L (domain A))"
proof -
  have "map length (weak_form L A) =
      map (\<lambda>row. global_dof_count L (domain A)) (weak_form L A)"
    using assms by (intro map_cong) (simp_all add: weak_form_cols)
  also have "\<dots> = replicate (length (weak_form L A)) (global_dof_count L (domain A))"
    by (simp add: map_replicate_const)
  finally show ?thesis
    using assms by (simp add: weak_form_rows)
qed

text \<open>
  C5. In the matrix of an operator the rows belong to the test functions and the columns to
  the trial functions. The notebook hands the library the trial space first (\<open>domain\<close>)
  and the space of the test functions last (\<open>dual_to_range\<close>: the space the right-hand
  side of the block row is projected onto); the space in between (\<open>range'\<close>) only says
  where the result of applying the operator to a grid function lives, the part the claim
  gives the dual space. For every operator expression whose sums are compatible, so for
  every kernel and every three spaces, the matrix has one row for each function of the test
  space and one column for each function of the trial space; an operator with the same
  trial and test space has a matrix of the same shape, whatever its third space is.
\<close>

theorem weak_form_shape:
  assumes A: "compatible A" and B: "compatible B"
    and d: "domain B = domain A" and t: "dual_to_range B = dual_to_range A"
  shows "length (weak_form L A) = global_dof_count L (dual_to_range A)
   \<and> list_all (\<lambda>row. length row = global_dof_count L (domain A)) (weak_form L A)
   \<and> map length (weak_form L B) = map length (weak_form L A)"
proof -
  have 1: "length (weak_form L A) = global_dof_count L (dual_to_range A)"
    using A by (rule weak_form_rows)
  have 2: "list_all (\<lambda>row. length row = global_dof_count L (domain A)) (weak_form L A)"
    using A by (simp add: list_all_iff weak_form_cols)
  have 3: "map length (weak_form L B) = map length (weak_form L A)"
    by (simp add: map_length_weak_form [OF A] map_length_weak_form [OF B] d t)
  from 1 2 3 show ?thesis by simp
qed

text \<open>
  The operator \<open>0.5 * id_DD + dlp_DD\<close> of the right-hand side in the example: 12 rows, the
  dof count of its test space, of 18 columns, the dof count of its trial space, and so for
  the double-layer operator with another space in between.
\<close>

theorem weak_form_shape_witness:
  "compatible (Sum (Scaled (1 / 2) id_DD) dlp_DD)
   \<and> compatible (double_layer dirichlet_space_dirichlet_segment neumann_space_neumann_segment
        neumann_space_dirichlet_segment)
   \<and> dual_to_range (Sum (Scaled (1 / 2) id_DD) dlp_DD) = neumann_space_dirichlet_segment
   \<and> domain (Sum (Scaled (1 / 2) id_DD) dlp_DD) = dirichlet_space_dirichlet_segment
   \<and> length (weak_form coarse_cube (Sum (Scaled (1 / 2) id_DD) dlp_DD)) = 12
   \<and> list_all (\<lambda>row. length row = 18) (weak_form coarse_cube (Sum (Scaled (1 / 2) id_DD) dlp_DD))
   \<and> map length (weak_form coarse_cube
        (double_layer dirichlet_space_dirichlet_segment neumann_space_neumann_segment
           neumann_space_dirichlet_segment))
      = map length (weak_form coarse_cube (Sum (Scaled (1 / 2) id_DD) dlp_DD))"
  using weak_form_shape [of "Sum (Scaled (1 / 2) id_DD) dlp_DD"
      "double_layer dirichlet_space_dirichlet_segment neumann_space_neumann_segment
         neumann_space_dirichlet_segment" coarse_cube]
  by (simp add: operator_defs coarse_cube_counts del: weak_form.simps)

subsection \<open>Counting the functions of a space\<close>







text \<open>
  C4, with the option the right way round. On an open segment (\<^verbatim>\<open>closed=False\<close>) a dof
  whose reference point lies on the excluded boundary is kept only when
  \<^verbatim>\<open>reference_point_on_segment\<close> is false, and then provided its support lies inside the
  segment. With \<^verbatim>\<open>reference_point_on_segment\<close> true, only dofs whose reference point
  lies strictly inside the segment are kept.
\<close>

theorem open_segment_boundary_dofs:
  assumes "domains sp = Some D" and "\<not> closed' sp"
  shows "(on_boundary D d \<longrightarrow>
            dof_in_space sp d = (\<not> reference_point_on_segment sp \<and> support_inside D d))
       \<and> (reference_point_on_segment sp \<and> dof_in_space sp d \<longrightarrow>
            ref_segments d \<noteq> [] \<and> list_all (\<lambda>s. s \<in> set D) (ref_segments d)
            \<and> \<not> on_boundary D d)"
  using assms
  by (auto simp: dof_in_space_def reference_point_in_def on_boundary_def list_ex_iff list_all_iff
      split: if_splits)

text \<open>
  C4 as stated has the option the wrong way round. The function \<open>corner_fn\<close> lives on a
  triangle of a Neumann face and has its reference point on the edge shared with a
  Dirichlet face. With the option true it is not in the open space on the Neumann segments,
  although its support lies inside; with the option false, as the notebook builds
  \<open>neumann_space_neumann_segment\<close>, it is.
\<close>

theorem reference_point_flag_counterexample:
  "\<not> closed' neumann_space_neumann_segment
   \<and> on_boundary neumann_segments corner_fn
   \<and> support_inside neumann_segments corner_fn
   \<and> \<not> dof_in_space (neumann_space_neumann_segment\<lparr>reference_point_on_segment := True\<rparr>) corner_fn
   \<and> \<not> reference_point_on_segment neumann_space_neumann_segment
   \<and> dof_in_space neumann_space_neumann_segment corner_fn"
  by (simp add: dof_in_space_def on_boundary_def support_inside_def
      reference_point_in_def corner_fn_def space_defs neumann_segments_def)

text \<open>
  The same function in the notebook's space, and the continuous functions on the shared
  edge and inside face 2 in the open continuous space on the Neumann segments.
\<close>

theorem open_segment_boundary_dofs_witness:
  "domains neumann_space_neumann_segment = Some neumann_segments
   \<and> \<not> closed' neumann_space_neumann_segment
   \<and> on_boundary neumann_segments corner_fn
   \<and> support_inside neumann_segments corner_fn
   \<and> dof_in_space neumann_space_neumann_segment corner_fn
   \<and> \<not> dof_in_space (dirichlet_space_neumann_segment) on_edge_1_2
   \<and> dof_in_space (dirichlet_space_neumann_segment) inside_2
   \<and> list_all (\<lambda>s. s \<in> set neumann_segments) (ref_segments inside_2)"
  using open_segment_boundary_dofs [of neumann_space_neumann_segment neumann_segments corner_fn]
    open_segment_boundary_dofs [of dirichlet_space_neumann_segment neumann_segments inside_2]
  by (simp add: dof_in_space_def on_boundary_def support_inside_def
      reference_point_in_def corner_fn_def inside_2_def on_edge_1_2_def space_defs neumann_segments_def)




subsection \<open>The two continuous spaces and the global one\<close>




end
